theory Spec2Isabelle
  imports Complex_Main
begin

section \<open>The chunker (orchestrator, \<open>chunkText\<close>)\<close>

text \<open>
  A Go \<open>string\<close> is a sequence of bytes: \<open>len\<close> counts bytes and \<open>text[lo:hi]\<close>
  cuts bytes, so the model uses \<^typ>\<open>string\<close> (a list of 8-bit characters).
  Go's \<open>int\<close> is modelled by \<^typ>\<open>int\<close>: inside the loop \<open>start < len(text)\<close> and
  \<open>chunkSize < len(text)\<close> hold, so \<open>start + chunkSize\<close> stays below twice the
  length of a string that fits in memory and cannot wrap around.

  A slice expression with bounds out of range is a run-time panic, and so is
  \<open>make\<close> with a negative length.
\<close>

datatype panic = SliceBoundsOutOfRange | MakeSliceLenOutOfRange

definition slice :: "string \<Rightarrow> int \<Rightarrow> int \<Rightarrow> panic + string" where
  "slice s lo hi =
     (if 0 \<le> lo \<and> lo \<le> hi \<and> hi \<le> int (length s)
      then Inr (take (nat (hi - lo)) (drop (nat lo) s))
      else Inl SliceBoundsOutOfRange)"

text \<open>
  The \<open>for start < len(text)\<close> loop of \<open>chunkText\<close>. Nothing in the function checks
  that the stride \<open>chunkSize - overlap\<close> is positive, so the loop may run forever:
  the value \<open>None\<close> stands for a call that never returns.
\<close>

partial_function (option) chunkLoop ::
  "string \<Rightarrow> int \<Rightarrow> int \<Rightarrow> int \<Rightarrow> string list \<Rightarrow> (panic + string list) option" where
  "chunkLoop text chunkSize overlap start chunks =
     (if start < int (length text) then
        (let end0 = start + chunkSize;
             end1 = (if end0 > int (length text) then int (length text) else end0)
         in case slice text start end1 of
              Inl p \<Rightarrow> Some (Inl p)
            | Inr c \<Rightarrow> chunkLoop text chunkSize overlap (start + (chunkSize - overlap)) (chunks @ [c]))
      else Some (Inr chunks))"

declare chunkLoop.simps [code]

definition chunkText :: "string \<Rightarrow> int \<Rightarrow> int \<Rightarrow> (panic + string list) option" where
  "chunkText text chunkSize overlap =
     (if int (length text) \<le> chunkSize then Some (Inr [text])
      else chunkLoop text chunkSize overlap 0 [])"

text \<open>
  Quantities used to state the results about the chunker. \<open>iters L stride start\<close> is the
  number of times the loop body runs from \<open>start\<close> on a text of length \<open>L\<close>;
  \<open>window text chunkSize s\<close> is the chunk cut at offset \<open>s\<close>.
  \<open>specWindow\<close> follows the specification's words ("window \<open>i\<close> covers
  \<open>[i*stride, i*stride + chunkSize)\<close> clipped to text length"); it is compared
  with what the loop returns.
\<close>

definition iters :: "int \<Rightarrow> int \<Rightarrow> int \<Rightarrow> nat" where
  "iters L stride start = nat (- ((start - L) div stride))"

definition window :: "string \<Rightarrow> int \<Rightarrow> int \<Rightarrow> string" where
  "window text chunkSize s = take (nat chunkSize) (drop (nat s) text)"

definition specWindow :: "int \<Rightarrow> int \<Rightarrow> int \<Rightarrow> nat \<Rightarrow> int \<times> int" where
  "specWindow L chunkSize overlap i =
     (int i * (chunkSize - overlap), min (int i * (chunkSize - overlap) + chunkSize) L)"

section \<open>Errors, log entries, collaborators\<close>

text \<open>
  A Go \<open>error\<close> is identified with its message (\<open>err.Error()\<close>): the program only ever
  wraps errors with \<open>fmt.Errorf("...: %w", err)\<close> and searches the message for a
  substring. \<open>None\<close> of type \<open>err option\<close> is \<open>nil\<close>.
\<close>

type_synonym err = string

datatype level = DebugLevel | InfoLevel | WarnLevel | ErrorLevel

datatype field = FString string string | FInt string int | FBool string bool | FError err

datatype mvalue = MString string | MInt int

text \<open>
  \<open>pinecone.Vector\<close> and \<open>pinecone.Match\<close>. The type \<open>'f\<close> stands for \<open>float32\<close>:
  the pipeline moves embedding values around and never computes with them. The metadata
  map is an association list in the order of the composite literal.
\<close>

record 'f Vector =
  ID :: string
  Values :: "'f list"
  Metadata :: "(string \<times> mvalue) list"

record 'f Match =
  matchID :: string
  matchScore :: 'f
  matchMetadata :: "(string \<times> mvalue) list"

record 'f UpsertRequest =
  Vectors :: "'f Vector list"
  Namespace :: string

record httpRequest =
  reqMethod :: string
  reqURL :: string
  reqHeaders :: "(string \<times> string) list"
  reqBody :: string

text \<open>\<open>respBody\<close> is what \<open>io.ReadAll(resp.Body)\<close> gives when the program reads it.\<close>

record httpResponse =
  StatusCode :: int
  respBody :: "err + string"

text \<open>
  The file system as \<open>filepath.Walk\<close> sees it from a root: a non-directory of some
  kind, or a directory with the outcome of listing it (\<open>readDirNames\<close>: an error, or the
  sorted names, each with the outcome of \<open>lstat\<close> on it).
\<close>

datatype fileKind = Regular | Symlink | OtherKind

datatype node = NonDir fileKind | Dir "err + (string \<times> (err + node)) list"

record FileInfo =
  Name :: string
  IsDir :: bool

text \<open>
  What \<open>filepath.Walk\<close> hands to its callback: \<open>(info, nil)\<close> for an entry,
  \<open>(info, err)\<close> for a directory that could not be listed, \<open>(nil, err)\<close> for an entry
  whose \<open>lstat\<close> failed.
\<close>

datatype walkArg = Entry FileInfo | ListError FileInfo err | LstatError err

text \<open>Outcome of \<open>os.Open\<close> followed by \<open>io.Copy\<close> of the whole file.\<close>

datatype readResult = OpenFailed err | CopyFailed err | Content string

text \<open>
  Every call to the outside world and every log entry is recorded, in order, in a trace.
  A collaborator is a function of the trace so far and of its arguments, so its answer
  may depend on everything that happened before (a service may fail on the second call
  with the same argument).
\<close>

datatype 'f event =
    EvLog level string "field list"
  | EvWalk string "err + node"
  | EvFileRead string readResult
  | EvQuery "'f list" int string "err + 'f Match list"
  | EvExtract string "err + string"
  | EvAnalyzeImage string "string \<times> err option"
  | EvGenerateSummary string "err + string"
  | EvNewUUID string
  | EvGenerateEmbedding string "err + 'f list"
  | EvTimeNow int
  | EvHttpDo httpRequest "err + httpResponse"

type_synonym 'f trace = "'f event list"

record 'f processor =
  CanProcess :: "string \<Rightarrow> bool"
  Extract :: "'f trace \<Rightarrow> string \<Rightarrow> err + string"

record AppConfig =
  ChunkSize :: int
  ChunkOverlap :: int
  SkipExistingDocuments :: bool

record PineconeConfig =
  Dimension :: int
  UseNamespaces :: bool

text \<open>
  The \<open>DocumentProcessor\<close> with its clients, and the library functions and services the
  code calls, which are not part of the repository's sources: they are parameters.
  \<open>queryVectors\<close> is \<open>PineconeClient.QueryVectors\<close> (the vector-store query), with the
  filter \<open>{"file_hash": {"$eq": h}}\<close> given by \<open>h\<close>.
\<close>

record 'f env =
  app :: AppConfig
  pinecone :: PineconeConfig
  apiKey :: string
  host :: string
  processors :: "'f processor list"
  visionClient :: "('f trace \<Rightarrow> string \<Rightarrow> string \<times> err option) option"
  azureGenerateSummary :: "'f trace \<Rightarrow> string \<Rightarrow> err + string"
  azureGenerateEmbedding :: "'f trace \<Rightarrow> string \<Rightarrow> err + 'f list"
  queryVectors :: "'f trace \<Rightarrow> 'f list \<Rightarrow> int \<Rightarrow> string \<Rightarrow> err + 'f Match list"
  httpDo :: "'f trace \<Rightarrow> httpRequest \<Rightarrow> err + httpResponse"
  jsonMarshal :: "'f UpsertRequest \<Rightarrow> err + string"
  newRequest :: "string \<Rightarrow> string \<Rightarrow> err option"
  lstatTree :: "'f trace \<Rightarrow> string \<Rightarrow> err + node"
  readFile :: "'f trace \<Rightarrow> string \<Rightarrow> readResult"
  sha256 :: "string \<Rightarrow> string"
  uuidNew :: "'f trace \<Rightarrow> string"
  timeNowUnix :: "'f trace \<Rightarrow> int"
  floatZero :: 'f
  filepathExt :: "string \<Rightarrow> string"
  filepathBase :: "string \<Rightarrow> string"
  filepathJoin :: "string \<Rightarrow> string \<Rightarrow> string"
  stringsToLower :: "string \<Rightarrow> string"

section \<open>Strings and formatting\<close>

definition stringsHasPrefix :: "string \<Rightarrow> string \<Rightarrow> bool" where
  "stringsHasPrefix s p = (take (length p) s = p)"


text \<open>
  \<open>%d\<close> of \<open>fmt.Sprintf\<close>; the digits are looked up in a table, as \<open>fmt\<close> does, with
  an index below 10 here and below 16 in \<open>hexByte\<close>.
\<close>

definition digit :: "nat \<Rightarrow> char" where
  "digit d = ''0123456789'' ! d"

function decimal :: "nat \<Rightarrow> string" where
  "decimal n = (if n < 10 then [digit n] else decimal (n div 10) @ [digit (n mod 10)])"
  by pat_completeness auto
termination
  by (relation "measure id") auto

declare decimal.simps [simp del]

definition showInt :: "int \<Rightarrow> string" where
  "showInt i = (if i < 0 then ''-'' @ decimal (nat (- i)) else decimal (nat i))"

text \<open>\<open>%x\<close> of \<open>fmt.Sprintf\<close> on a byte slice: two lower-case hexadecimal digits per byte.\<close>

definition hexDigit :: "nat \<Rightarrow> char" where
  "hexDigit d = ''0123456789abcdef'' ! d"

definition hexByte :: "char \<Rightarrow> string" where
  "hexByte c = [hexDigit (of_char c div 16), hexDigit (of_char c mod 16)]"

definition hexLower :: "string \<Rightarrow> string" where
  "hexLower bs = concat (map hexByte bs)"

section \<open>The scanner (\<open>scanDirectory\<close>)\<close>

text \<open>
  \<open>filepath.Walk\<close> of the Go library: \<open>walk\<close> visits an entry, \<open>walkNames\<close> is its loop
  over the names of a directory. The callback threads a state \<open>'s\<close> (the variables it
  closes over). The library's \<open>SkipDir\<close> and \<open>SkipAll\<close> sentinels are left out: the
  callback of \<open>scanDirectory\<close> returns \<open>nil\<close> or the error it was given, which comes from
  \<open>lstat\<close> or from listing a directory and is never a sentinel.
\<close>

type_synonym 's WalkFunc = "'s \<Rightarrow> string \<Rightarrow> walkArg \<Rightarrow> 's \<times> err option"

function (sequential) walk :: "(string \<Rightarrow> string \<Rightarrow> string) \<Rightarrow> 's WalkFunc \<Rightarrow> string \<Rightarrow> string \<Rightarrow> node \<Rightarrow> 's \<Rightarrow> 's \<times> err option"
and walkNames :: "(string \<Rightarrow> string \<Rightarrow> string) \<Rightarrow> 's WalkFunc \<Rightarrow> string \<Rightarrow> (string \<times> (err + node)) list \<Rightarrow> 's \<Rightarrow> 's \<times> err option"
where
  "walk join fn path name (NonDir k) s = fn s path (Entry \<lparr>Name = name, IsDir = False\<rparr>)"
| "walk join fn path name (Dir (Inl e)) s = fn s path (ListError \<lparr>Name = name, IsDir = True\<rparr> e)"
| "walk join fn path name (Dir (Inr names)) s =
     (case fn s path (Entry \<lparr>Name = name, IsDir = True\<rparr>) of
        (s1, Some demo_indexFile_e) \<Rightarrow> (s1, Some demo_indexFile_e)
      | (s1, None) \<Rightarrow> walkNames join fn path names s1)"
| "walkNames join fn path [] s = (s, None)"
| "walkNames join fn path ((name, Inl e) # rest) s =
     (case fn s (join path name) (LstatError e) of
        (s1, Some demo_indexFile_e) \<Rightarrow> (s1, Some demo_indexFile_e)
      | (s1, None) \<Rightarrow> walkNames join fn path rest s1)"
| "walkNames join fn path ((name, Inr nd) # rest) s =
     (case walk join fn (join path name) name nd s of
        (s1, Some demo_indexFile_e) \<Rightarrow> (s1, Some demo_indexFile_e)
      | (s1, None) \<Rightarrow> walkNames join fn path rest s1)"
  by pat_completeness auto
termination
  by (relation "measure (case_sum (\<lambda>(join, fn, path, name, nd, s). size nd)
          (\<lambda>(join, fn, path, names, s).
             size_list (size_prod (\<lambda>_. 0) (size_sum (\<lambda>_. 0) size)) names))") auto

definition filepathWalk ::
  "(string \<Rightarrow> string \<Rightarrow> string) \<Rightarrow> 's WalkFunc \<Rightarrow> string \<Rightarrow> string \<Rightarrow> err + node \<Rightarrow> 's \<Rightarrow> 's \<times> err option" where
  "filepathWalk join fn rootPath rootName lst s =
     (case lst of
        Inl e \<Rightarrow> fn s rootPath (LstatError e)
      | Inr nd \<Rightarrow> walk join fn rootPath rootName nd s)"

text \<open>
  The callback of \<open>scanDirectory\<close>; its state is the slice \<open>files\<close>. In
  \<open>scanDirectory\<close> the \<open>FileInfo\<close> of the root carries the base name of the path, as
  \<open>os.Lstat\<close> gives it; the tree that the walk meets is the answer of the file system to
  the calls of this walk.
\<close>

definition scanFn :: "string list WalkFunc" where
  "scanFn files path arg =
     (case arg of
        LstatError e \<Rightarrow> (files, Some e)
      | ListError info e \<Rightarrow> (files, Some e)
      | Entry info \<Rightarrow>
          if IsDir info \<or> stringsHasPrefix (Name info) ''.'' then (files, None)
          else (files @ [path], None))"

definition scanDirectory :: "'f env \<Rightarrow> string \<Rightarrow> 'f trace \<Rightarrow> (string list \<times> err option) \<times> 'f trace" where
  "scanDirectory env directory w =
     (let r = lstatTree env w directory
      in (filepathWalk (filepathJoin env) scanFn directory (filepathBase env directory) r [],
          w @ [EvWalk directory r]))"




section \<open>The hasher (\<open>calculateFileHash\<close>)\<close>

definition calculateFileHash :: "'f env \<Rightarrow> string \<Rightarrow> 'f trace \<Rightarrow> (err + string) \<times> 'f trace" where
  "calculateFileHash env filePath w =
     (let r = readFile env w filePath; w1 = w @ [EvFileRead filePath r]
      in case r of
           OpenFailed e \<Rightarrow> (Inl e, w1)
         | CopyFailed e \<Rightarrow> (Inl e, w1)
         | Content bytes \<Rightarrow> (Inr (''sha256:'' @ hexLower (sha256 env bytes)), w1))"

section \<open>The vector store client (\<open>UpsertVectors\<close>, \<open>upsertBatch\<close>, \<open>CheckDocumentExists\<close>)\<close>

definition upsertBatch :: "'f env \<Rightarrow> 'f Vector list \<Rightarrow> 'f trace \<Rightarrow> err option \<times> 'f trace" where
  "upsertBatch env vectors w =
     (let reqBody = \<lparr>Vectors = vectors,
                     Namespace = (if UseNamespaces (pinecone env) then ''default'' else [])\<rparr>
      in case jsonMarshal env reqBody of
           Inl e \<Rightarrow> (Some (''failed to marshal request: '' @ e), w)
         | Inr jsonBody \<Rightarrow>
             (let url = host env @ ''/vectors/upsert''
              in case newRequest env ''POST'' url of
                   Some e \<Rightarrow> (Some (''failed to create request: '' @ e), w)
                 | None \<Rightarrow>
                     (let req = \<lparr>reqMethod = ''POST'', reqURL = url,
                                  reqHeaders = [(''Content-Type'', ''application/json''),
                                                (''Api-Key'', apiKey env)],
                                  reqBody = jsonBody\<rparr>;
                          r = httpDo env w req;
                          w1 = w @ [EvHttpDo req r]
                      in case r of
                           Inl e \<Rightarrow> (Some (''failed to send request: '' @ e), w1)
                         | Inr resp \<Rightarrow>
                             if StatusCode resp \<noteq> 200 then
                               (case respBody resp of
                                  Inl e \<Rightarrow>
                                    (Some (''API error (status '' @ showInt (StatusCode resp)
                                           @ ''): failed to read response body: '' @ e), w1)
                                | Inr body \<Rightarrow>
                                    (Some (''API error (status '' @ showInt (StatusCode resp)
                                           @ ''): '' @ body), w1))
                             else (None, w1))))"

text \<open>The \<open>for i := 0; i < len(vectors); i += batchSize\<close> loop, \<open>batchSize := 100\<close>.\<close>

function upsertLoop :: "'f env \<Rightarrow> 'f Vector list \<Rightarrow> nat \<Rightarrow> 'f trace \<Rightarrow> err option \<times> 'f trace" where
  "upsertLoop env vectors i w =
     (if i < length vectors then
        (let end0 = i + 100;
             end1 = (if end0 > length vectors then length vectors else end0);
             batch = take (end1 - i) (drop i vectors)
         in case upsertBatch env batch w of
              (Some e, w1) \<Rightarrow> (Some (''failed to upsert batch: '' @ e), w1)
            | (None, w1) \<Rightarrow>
                upsertLoop env vectors (i + 100)
                  (w1 @ [EvLog DebugLevel ''Upserted batch''
                           [FInt ''from'' (int i), FInt ''to'' (int end1)]]))
      else (None, w))"
  by pat_completeness auto
termination
  by (relation "measure (\<lambda>(env, vectors, i, w). length vectors - i)") auto

declare upsertLoop.simps [simp del]

definition UpsertVectors :: "'f env \<Rightarrow> 'f Vector list \<Rightarrow> 'f trace \<Rightarrow> err option \<times> 'f trace" where
  "UpsertVectors env vectors w =
     (if length vectors = 0 then (None, w)
      else case upsertLoop env vectors 0
                  (w @ [EvLog DebugLevel ''Upserting vectors'' [FInt ''count'' (int (length vectors))]]) of
             (Some e, w1) \<Rightarrow> (Some e, w1)
           | (None, w1) \<Rightarrow>
               (None, w1 @ [EvLog InfoLevel ''Successfully upserted vectors''
                              [FInt ''total'' (int (length vectors))]]))"





section \<open>The coordinator (\<open>processFile\<close>, \<open>ProcessDirectory\<close>)\<close>

fun findProcessor :: "'f processor list \<Rightarrow> string \<Rightarrow> 'f processor option" where
  "findProcessor [] ext = None"
| "findProcessor (p # ps) ext = (if CanProcess p ext then Some p else findProcessor ps ext)"

definition extractContent :: "'f env \<Rightarrow> string \<Rightarrow> 'f trace \<Rightarrow> (err + string) \<times> 'f trace" where
  "extractContent env filePath w =
     (let ext = filepathExt env filePath
      in case findProcessor (processors env) ext of
           Some p \<Rightarrow> (let r = Extract p w filePath in (r, w @ [EvExtract filePath r]))
         | None \<Rightarrow> (Inl (''no processor found for file type: '' @ ext), w))"

definition isImageFile :: "'f env \<Rightarrow> string \<Rightarrow> bool" where
  "isImageFile env filePath =
     (stringsToLower env (filepathExt env filePath)
        \<in> set [''.png'', ''.jpg'', ''.jpeg'', ''.gif'', ''.bmp'', ''.svg''])"

text \<open>The \<open>pinecone.Vector\<close> literal built for chunk \<open>i\<close> ("Create vector").\<close>

definition makeVector ::
  "'f env \<Rightarrow> string \<Rightarrow> string \<Rightarrow> string \<Rightarrow> string \<Rightarrow> nat \<Rightarrow> nat \<Rightarrow> string \<Rightarrow> 'f list \<Rightarrow> int
     \<Rightarrow> 'f Vector" where
  "makeVector env docID filePath fileHash summary chunkTotal i chunk chunkEmbedding t =
     \<lparr>ID = docID @ ''-chunk-'' @ decimal i,
      Values = chunkEmbedding,
      Metadata =
        [(''document_id'', MString docID),
         (''file_name'', MString (filepathBase env filePath)),
         (''file_path'', MString filePath),
         (''file_type'', MString (filepathExt env filePath)),
         (''file_hash'', MString fileHash),
         (''chunk_index'', MInt (int i)),
         (''chunk_total'', MInt (int chunkTotal)),
         (''content'', MString chunk),
         (''summary'', MString summary),
         (''indexed_at'', MInt t)]\<rparr>"

text \<open>
  The loop over the chunks in \<open>processFile\<close> ("Process each chunk"): \<open>i\<close> is the index of
  the chunk at the head of the list; \<open>mk i chunk chunkEmbedding t\<close> is the vector literal.
\<close>

primrec embedChunks ::
  "'f env \<Rightarrow> (nat \<Rightarrow> string \<Rightarrow> 'f list \<Rightarrow> int \<Rightarrow> 'f Vector) \<Rightarrow> string list \<Rightarrow> nat \<Rightarrow> 'f Vector list
     \<Rightarrow> 'f trace \<Rightarrow> 'f Vector list \<times> 'f trace" where
  "embedChunks env mk [] i vectors w = (vectors, w)"
| "embedChunks env mk (chunk # rest) i vectors w =
     (case azureGenerateEmbedding env w chunk of
        Inl embErr \<Rightarrow>
          embedChunks env mk rest (i + 1) vectors
            (w @ [EvGenerateEmbedding chunk (Inl embErr),
                  EvLog ErrorLevel ''Failed to generate embedding''
                    [FInt ''chunk'' (int i), FError embErr]])
      | Inr chunkEmbedding \<Rightarrow>
          (let t = timeNowUnix env (w @ [EvGenerateEmbedding chunk (Inr chunkEmbedding)])
           in embedChunks env mk rest (i + 1)
                (vectors @ [mk i chunk chunkEmbedding t])
                (w @ [EvGenerateEmbedding chunk (Inr chunkEmbedding), EvTimeNow t])))"

text \<open>
  \<open>processFile\<close> is cut in three at the comments of the source: \<open>embedAndStore\<close> is the
  part from "Create chunks" to the end, \<open>indexFile\<close> the part from "Extract content" to
  "Generate summary", and \<open>processFile\<close> the hash and the check for an indexed document.
  The value \<open>None\<close> is a call that never returns, \<open>Some (Inl p)\<close> one that panics,
  \<open>Some (Inr (e, w))\<close> one that returns the error \<open>e\<close> (\<open>None\<close> for \<open>nil\<close>).
\<close>

definition embedAndStore ::
  "'f env \<Rightarrow> string \<Rightarrow> string \<Rightarrow> string \<Rightarrow> string \<Rightarrow> 'f trace
     \<Rightarrow> (panic + (err option \<times> 'f trace)) option" where
  "embedAndStore env filePath fileHash combinedContent summary w =
     (case chunkText combinedContent (ChunkSize (app env)) (ChunkOverlap (app env)) of
        None \<Rightarrow> None
      | Some (Inl p) \<Rightarrow> Some (Inl p)
      | Some (Inr chunks) \<Rightarrow>
          (let docID = uuidNew env w;
               (vectors, w2) =
                 embedChunks env (makeVector env docID filePath fileHash summary (length chunks))
                   chunks 0 [] (w @ [EvNewUUID docID])
           in if length vectors > 0 then
                (case UpsertVectors env vectors w2 of
                   (Some e, w3) \<Rightarrow> Some (Inr (Some (''failed to store in Pinecone: '' @ e), w3))
                 | (None, w3) \<Rightarrow>
                     Some (Inr (None,
                       w3 @ [EvLog InfoLevel ''Successfully indexed file''
                               [FString ''file'' (filepathBase env filePath),
                                FInt ''chunks'' (int (length vectors))]])))
              else Some (Inr (None, w2))))"

definition analyzeIfImage :: "'f env \<Rightarrow> string \<Rightarrow> 'f trace \<Rightarrow> string \<times> 'f trace" where
  "analyzeIfImage env filePath w =
     (if isImageFile env filePath then
        (case visionClient env of
           None \<Rightarrow> ([], w)
         | Some analyze \<Rightarrow>
             (let r = analyze w filePath; w1 = w @ [EvAnalyzeImage filePath r]
              in case snd r of
                   Some visionErr \<Rightarrow>
                     (fst r, w1 @ [EvLog WarnLevel ''Failed to analyze image'' [FError visionErr]])
                 | None \<Rightarrow> (fst r, w1)))
      else ([], w))"

definition indexFile ::
  "'f env \<Rightarrow> string \<Rightarrow> string \<Rightarrow> 'f trace \<Rightarrow> (panic + (err option \<times> 'f trace)) option" where
  "indexFile env filePath fileHash w =
     (case extractContent env filePath w of
        (Inl e, w1) \<Rightarrow> Some (Inr (Some (''failed to extract content: '' @ e), w1))
      | (Inr content, w1) \<Rightarrow>
          if content = [] then
            Some (Inr (None, w1 @ [EvLog WarnLevel ''No content extracted'' [FString ''file'' filePath]]))
          else
            (let (visualContent, w2) = analyzeIfImage env filePath w1;
                 combinedContent =
                   (if visualContent \<noteq> [] then content @ [CHR 0x0A, CHR 0x0A] @ visualContent
                    else content);
                 r = azureGenerateSummary env w2 combinedContent;
                 w3 = w2 @ [EvGenerateSummary combinedContent r];
                 (summary, w4) =
                   (case r of
                      Inl e \<Rightarrow> (''Summary generation failed'',
                                w3 @ [EvLog WarnLevel ''Failed to generate summary'' [FError e]])
                    | Inr s \<Rightarrow> (s, w3))
             in embedAndStore env filePath fileHash combinedContent summary w4))"






section \<open>Reading a trace\<close>


fun timeCalls :: "'f trace \<Rightarrow> int list" where
  "timeCalls [] = []"
| "timeCalls (EvTimeNow t # evs) = t # timeCalls evs"
| "timeCalls (_ # evs) = timeCalls evs"



text \<open>Value of a hexadecimal digit, to read back what \<open>hexLower\<close> writes.\<close>

definition hexVal :: "char \<Rightarrow> nat" where
  "hexVal c = (if of_char c < (of_char CHR ''a'' :: nat) then of_char c - of_char CHR ''0''
               else of_char c - of_char CHR ''a'' + 10)"





section \<open>A concrete run\<close>

text \<open>
  One instance of the parameters, used to evaluate the definitions above on concrete
  inputs: a directory \<open>d\<close> with four regular files, a hidden file and a subdirectory.
  \<open>a.txt\<close> is new and its second chunk cannot be embedded, \<open>b.txt\<close> is already in the
  index, \<open>c.bin\<close> has no processor, and the vector-store query fails for \<open>e.txt\<close>.
  The digest function is a stand-in (the identity), as are the path functions.
\<close>

definition demoTree :: node where
  "demoTree =
     Dir (Inr [(''.hidden'', Inr (NonDir Regular)),
               (''a.txt'', Inr (NonDir Regular)),
               (''b.txt'', Inr (NonDir Regular)),
               (''c.bin'', Inr (NonDir Symlink)),
               (''sub'', Inr (Dir (Inr [(''e.txt'', Inr (NonDir Regular))])))])"

definition demoRead :: "string \<Rightarrow> readResult" where
  "demoRead p =
     (if p = ''d/a.txt'' then Content ''A''
      else if p = ''d/b.txt'' then Content ''B''
      else if p = ''d/c.bin'' then Content ''C''
      else if p = ''d/sub/e.txt'' then Content ''E''
      else OpenFailed ''open: no such file or directory'')"

definition demoQuery :: "string \<Rightarrow> err + int Match list" where
  "demoQuery h =
     (if h = ''sha256:42'' then Inr [\<lparr>matchID = ''old-chunk-0'', matchScore = 0, matchMetadata = []\<rparr>]
      else if h = ''sha256:45'' then Inl ''query timed out''
      else Inr [])"

definition demoEnv :: "int env" where
  "demoEnv =
     \<lparr>app = \<lparr>ChunkSize = 4, ChunkOverlap = 0, SkipExistingDocuments = True\<rparr>,
      pinecone = \<lparr>Dimension = 2, UseNamespaces = False\<rparr>,
      apiKey = ''key'',
      host = ''https://index'',
      processors =
        [\<lparr>CanProcess = (\<lambda>ext. ext = ''.txt''),
          Extract = (\<lambda>w p. if p = ''d/a.txt'' then Inr ''aaaabbbbcc'' else Inr ''eeee'')\<rparr>],
      visionClient = None,
      azureGenerateSummary = (\<lambda>w t. Inr ''summary''),
      azureGenerateEmbedding = (\<lambda>w t. if t = ''bbbb'' then Inl ''rate limited'' else Inr [1, 2]),
      queryVectors = (\<lambda>w v k h. demoQuery h),
      httpDo = (\<lambda>w req. Inr \<lparr>StatusCode = 200, respBody = Inr ''{}''\<rparr>),
      jsonMarshal = (\<lambda>req. Inr (concat (map ID (Vectors req)))),
      newRequest = (\<lambda>m u. None),
      lstatTree = (\<lambda>w d. if d = ''d'' then Inr demoTree else Inl ''lstat: no such file or directory''),
      readFile = (\<lambda>w p. demoRead p),
      sha256 = (\<lambda>bytes. bytes),
      uuidNew = (\<lambda>w. ''doc''),
      timeNowUnix = (\<lambda>w. 1700000000),
      floatZero = 0,
      filepathExt = (\<lambda>p. drop (length p - 4) p),
      filepathBase = (\<lambda>p. p),
      filepathJoin = (\<lambda>d n. d @ ''/'' @ n),
      stringsToLower = (\<lambda>s. s)\<rparr>"




text \<open>A fourth instance: a directory one of whose entries cannot be read.\<close>

definition brokenTree :: node where
  "brokenTree =
     Dir (Inr [(''a.txt'', Inr (NonDir Regular)),
               (''locked'', Inl ''lstat d/locked: permission denied''),
               (''z.txt'', Inr (NonDir Regular))])"

definition brokenEnv :: "int env" where
  "brokenEnv = demoEnv\<lparr>lstatTree := (\<lambda>w d. Inr brokenTree)\<rparr>"

section \<open>Results on the chunker\<close>

lemma iters_0: "0 < stride \<Longrightarrow> L \<le> start \<Longrightarrow> iters L stride start = 0"
  by (simp add: iters_def pos_imp_zdiv_nonneg_iff)

lemma iters_Suc: "0 < stride \<Longrightarrow> start < L \<Longrightarrow> iters L stride start = Suc (iters L stride (start + stride))"
proof -
  assume a: "0 < stride" "start < L"
  have "(start + stride - L) div stride = (start - L) div stride + 1"
    using a by (metis add.commute add_diff_eq div_add_self1 less_irrefl)
  moreover have "(start - L) div stride < 0" using a by (simp add: pos_imp_zdiv_neg_iff)
  ultimately show ?thesis by (simp add: iters_def)
qed

lemma slice_window:
  "0 \<le> start \<Longrightarrow> start < int (length text) \<Longrightarrow> 0 \<le> chunkSize \<Longrightarrow>
   slice text start (if start + chunkSize > int (length text) then int (length text) else start + chunkSize)
     = Inr (window text chunkSize start)"
  by (auto simp: slice_def window_def)

lemma chunkLoop_closed:
  assumes "0 < chunkSize - overlap" "0 \<le> chunkSize" "0 \<le> start"
  shows "chunkLoop text chunkSize overlap start acc =
     Some (Inr (acc @ map (\<lambda>i. window text chunkSize (start + int i * (chunkSize - overlap)))
                       [0..<iters (int (length text)) (chunkSize - overlap) start]))"
  using assms(3)
proof (induction "nat (int (length text) - start)" arbitrary: start acc rule: less_induct)
  case less
  show ?case
  proof (cases "start < int (length text)")
    case False
    then show ?thesis using assms(1)
      by (subst chunkLoop.simps) (simp add: iters_0)
  next
    case True
    let ?st = "chunkSize - overlap"
    have lt: "nat (int (length text) - (start + ?st)) < nat (int (length text) - start)"
      using True assms(1) by linarith
    have IH: "chunkLoop text chunkSize overlap (start + ?st) (acc @ [window text chunkSize start]) =
       Some (Inr ((acc @ [window text chunkSize start]) @ map (\<lambda>i. window text chunkSize (start + ?st + int i * ?st))
                       [0..<iters (int (length text)) ?st (start + ?st)]))"
      using less(1)[OF lt] less(2) assms(1) by simp
    have sl: "slice text start (if start + chunkSize > int (length text) then int (length text) else start + chunkSize)
        = Inr (window text chunkSize start)"
      using slice_window[OF less(2) True assms(2)] .
    have "chunkLoop text chunkSize overlap start acc =
        chunkLoop text chunkSize overlap (start + ?st) (acc @ [window text chunkSize start])"
      using True sl by (subst chunkLoop.simps) (simp add: Let_def)
    also note IH
    finally show ?thesis
      using iters_Suc[OF assms(1) True]
      by (simp add: map_upt_Suc algebra_simps del: upt_Suc)
  qed
qed



lemma iters_less_iff: "0 < stride \<Longrightarrow> (i < iters L stride start) = (start + int i * stride < L)"
proof -
  assume a: "0 < stride"
  have "(int i < - ((start - L) div stride)) = ((start - L) div stride < - int i)" by linarith
  also have "\<dots> = (start - L < (- int i) * stride)"
  proof -
    have "(start - L + int i * stride) div stride = (start - L) div stride + int i"
      using a by simp
    then have "((start - L) div stride < - int i) = ((start - L + int i * stride) div stride < 0)"
      by linarith
    also have "\<dots> = (start - L + int i * stride < 0)"
      by (rule pos_imp_zdiv_neg_iff[OF a])
    finally show ?thesis by (simp add: algebra_simps)
  qed
  also have "\<dots> = (start + int i * stride < L)" by (simp add: algebra_simps)
  finally show ?thesis unfolding iters_def by linarith
qed

lemma iters_ceiling: "int (iters L stride 0) = max 0 \<lceil>real_of_int L / real_of_int stride\<rceil>"
  by (simp add: iters_def ceiling_divide_eq_div)



lemma chunkText_short: "int (length text) \<le> chunkSize \<Longrightarrow> chunkText text chunkSize overlap = Some (Inr [text])"
  by (simp add: chunkText_def)

lemma chunkText_long:
  assumes "0 \<le> overlap" "overlap < chunkSize" "chunkSize < int (length text)"
  shows "chunkText text chunkSize overlap =
     Some (Inr (map (\<lambda>i. window text chunkSize (int i * (chunkSize - overlap)))
                    [0..<iters (int (length text)) (chunkSize - overlap) 0]))"
  using assms chunkLoop_closed[of chunkSize overlap 0 "text" "[]"] by (simp add: chunkText_def)

lemma slice_specWindow:
  assumes "0 \<le> overlap" "overlap < chunkSize" "i < iters (int (length text)) (chunkSize - overlap) 0"
  shows "slice text (fst (specWindow (int (length text)) chunkSize overlap i))
                    (snd (specWindow (int (length text)) chunkSize overlap i))
         = Inr (window text chunkSize (int i * (chunkSize - overlap)))"
proof -
  have lt: "int i * (chunkSize - overlap) < int (length text)"
    using assms iters_less_iff[of "chunkSize - overlap" i "int (length text)" 0] by simp
  have nn: "0 \<le> int i * (chunkSize - overlap)" using assms by simp
  show ?thesis using slice_window[OF nn lt, of chunkSize] assms(1,2)
    by (auto simp: specWindow_def min_def)
qed

lemma covered:
  assumes "0 \<le> overlap" "overlap < chunkSize" "0 \<le> p" "p < L"
  shows "\<exists>i < iters L (chunkSize - overlap) 0.
           fst (specWindow L chunkSize overlap i) \<le> p \<and> p < snd (specWindow L chunkSize overlap i)"
proof -
  let ?st = "chunkSize - overlap"
  let ?i = "nat (p div ?st)"
  have st: "0 < ?st" using assms by simp
  have i: "int ?i = p div ?st" using assms st by (simp add: pos_imp_zdiv_nonneg_iff)
  have dm: "(p div ?st) * ?st + p mod ?st = p" by (rule div_mult_mod_eq)
  have md: "0 \<le> p mod ?st" "p mod ?st < ?st" using st by simp_all
  have lo: "int ?i * ?st \<le> p" unfolding i using dm md by linarith
  have hi: "p < int ?i * ?st + chunkSize" unfolding i using dm md assms(1) by linarith
  have "?i < iters L ?st 0" using iters_less_iff[OF st, of ?i L 0] lo assms(4) by simp
  then show ?thesis using lo hi assms(4) by (auto simp: specWindow_def intro!: exI[of _ ?i])
qed

lemma overlap_eq:
  assumes "0 \<le> overlap" "overlap < chunkSize" "Suc i < iters L (chunkSize - overlap) 0"
  shows "snd (specWindow L chunkSize overlap i) - fst (specWindow L chunkSize overlap (Suc i))
           = min overlap (L - fst (specWindow L chunkSize overlap (Suc i)))"
  by (simp add: specWindow_def min_def algebra_simps)

text \<open>
  Claim C1, as amended. Under \<open>0 \<le> overlap < chunkSize\<close>, \<open>chunkText\<close> returns one chunk when
  the text is no longer than \<open>chunkSize\<close>, and otherwise \<open>ceil(L / (chunkSize - overlap))\<close>
  chunks: the loop runs while the start of the window is below \<open>L\<close>. For \<open>L = 2500\<close>,
  \<open>chunkSize = 1000\<close>, \<open>overlap = 200\<close> these are the four chunks cut at \<open>[0,1000)\<close>,
  \<open>[800,1800)\<close>, \<open>[1600,2500)\<close> and \<open>[2400,2500)\<close>.
\<close>
theorem C1_chunk_count:
  assumes "0 \<le> overlap" "overlap < chunkSize"
  shows "\<exists>chunks. chunkText text chunkSize overlap = Some (Inr chunks) \<and>
     int (length chunks) = (if int (length text) \<le> chunkSize then 1
                            else \<lceil>real (length text) / real_of_int (chunkSize - overlap)\<rceil>) \<and>
     (length text = 2500 \<and> chunkSize = 1000 \<and> overlap = 200 \<longrightarrow>
        map Inr chunks = [slice text 0 1000, slice text 800 1800, slice text 1600 2500, slice text 2400 2500])"
proof (cases "int (length text) \<le> chunkSize")
  case True
  then show ?thesis using chunkText_short[OF True] by simp
next
  case False
  let ?n = "iters (int (length text)) (chunkSize - overlap) 0"
  let ?cs = "map (\<lambda>i. window text chunkSize (int i * (chunkSize - overlap))) [0..<?n]"
  have eq: "chunkText text chunkSize overlap = Some (Inr ?cs)"
    using chunkText_long[OF assms] False by simp
  have "0 \<le> real (length text) / real_of_int (chunkSize - overlap)" using assms by simp
  then have "0 \<le> \<lceil>real (length text) / real_of_int (chunkSize - overlap)\<rceil>" by linarith
  then have len: "int (length ?cs) = \<lceil>real (length text) / real_of_int (chunkSize - overlap)\<rceil>"
    using iters_ceiling[of "int (length text)" "chunkSize - overlap"] by simp
  have ex: "map Inr ?cs = [slice text 0 1000, slice text 800 1800, slice text 1600 2500, slice text 2400 2500]"
    if "length text = 2500" "chunkSize = 1000" "overlap = 200"
  proof -
    have n: "?n = 4" using that by (simp add: iters_def)
    have u: "[0..<4] = [0, 1, 2, Suc 2]" by (simp add: upt_rec)
    show ?thesis unfolding n u using that by (simp add: window_def slice_def)
  qed
  show ?thesis using eq len ex False by auto
qed


theorem C1_chunk_count_witness:
  "(0::int) \<le> 200 \<and> (200::int) < 1000 \<and>
   chunkText (replicate 2500 CHR ''x'') 1000 200 =
     Some (Inr [replicate 1000 CHR ''x'', replicate 1000 CHR ''x'',
                replicate 900 CHR ''x'', replicate 100 CHR ''x''])"
  using C1_chunk_count [of 200 1000 "replicate 2500 CHR ''x''"]
  by (auto simp: slice_def)

lemma chunkText_2500:
  "chunkText (replicate 2500 CHR ''x'') 1000 200 =
     Some (Inr [replicate 1000 CHR ''x'', replicate 1000 CHR ''x'',
                replicate 900 CHR ''x'', replicate 100 CHR ''x''])"
proof -
  have n: "iters 2500 800 0 = 4" by (simp add: iters_def)
  have u: "[0..<4] = [0, 1, 2, Suc 2]" by (simp add: upt_rec)
  show ?thesis
    using chunkText_long[of 200 1000 "replicate 2500 CHR ''x''"]
    by (simp add: n u window_def)
qed

text \<open>
  Claim C1 as stated fails: on a text of 2500 bytes the function returns four chunks, and
  \<open>ceil((2500 - 200) / (1000 - 200))\<close> is three.
\<close>
theorem C1_counterexample:
  "(0::int) \<le> 200 \<and> (200::int) < 1000 \<and> length (replicate 2500 CHR ''x'') = 2500 \<and>
   chunkText (replicate 2500 CHR ''x'') 1000 200 =
     Some (Inr [replicate 1000 CHR ''x'', replicate 1000 CHR ''x'',
                replicate 900 CHR ''x'', replicate 100 CHR ''x'']) \<and>
   int (length [replicate 1000 CHR ''x'', replicate 1000 CHR ''x'',
                replicate 900 CHR ''x'', replicate 100 CHR ''x''])
     \<noteq> \<lceil>real_of_int (2500 - 200) / real_of_int (1000 - 200)\<rceil>"
proof -
  have "\<lceil>real_of_int (2500 - 200) / real_of_int (1000 - 200)\<rceil> = - (- 2300 div (800::int))"
    using ceiling_divide_eq_div[of 2300 800] by simp
  then show ?thesis using chunkText_2500 by simp
qed

text \<open>
  Claim C2, as amended. Under \<open>0 \<le> overlap < chunkSize\<close>: a text no longer than \<open>chunkSize\<close>
  comes back as the single chunk; otherwise chunk \<open>i\<close> is the text cut at \<open>specWindow i\<close>,
  every position of the text lies in one of these windows, and two consecutive windows
  share \<open>min overlap (L - start of the second)\<close> positions, which is exactly \<open>overlap\<close>
  when the first of the two chunks has the full length \<open>chunkSize\<close>.
\<close>
theorem C2_chunk_windows:
  assumes "0 \<le> overlap" "overlap < chunkSize"
  shows "(int (length text) \<le> chunkSize \<longrightarrow> chunkText text chunkSize overlap = Some (Inr [text])) \<and>
   (chunkSize < int (length text) \<longrightarrow>
     (\<exists>chunks. chunkText text chunkSize overlap = Some (Inr chunks) \<and>
        (\<forall>i < length chunks.
           slice text (fst (specWindow (int (length text)) chunkSize overlap i))
                      (snd (specWindow (int (length text)) chunkSize overlap i)) = Inr (chunks ! i)) \<and>
        (\<forall>p. 0 \<le> p \<and> p < int (length text) \<longrightarrow>
           (\<exists>i < length chunks.
              fst (specWindow (int (length text)) chunkSize overlap i) \<le> p \<and>
              p < snd (specWindow (int (length text)) chunkSize overlap i))) \<and>
        (\<forall>i. Suc i < length chunks \<longrightarrow>
           snd (specWindow (int (length text)) chunkSize overlap i)
             - fst (specWindow (int (length text)) chunkSize overlap (Suc i))
           = min overlap (int (length text) - fst (specWindow (int (length text)) chunkSize overlap (Suc i)))) \<and>
        (\<forall>i. Suc i < length chunks \<and> int (length (chunks ! i)) = chunkSize \<longrightarrow>
           snd (specWindow (int (length text)) chunkSize overlap i)
             - fst (specWindow (int (length text)) chunkSize overlap (Suc i)) = overlap)))"
proof (intro conjI impI)
  assume "int (length text) \<le> chunkSize"
  then show "chunkText text chunkSize overlap = Some (Inr [text])" by (rule chunkText_short)
next
  assume long: "chunkSize < int (length text)"
  let ?L = "int (length text)"
  let ?n = "iters ?L (chunkSize - overlap) 0"
  let ?cs = "map (\<lambda>i. window text chunkSize (int i * (chunkSize - overlap))) [0..<?n]"
  have eq: "chunkText text chunkSize overlap = Some (Inr ?cs)"
    using chunkText_long[OF assms long] .
  have a: "\<forall>i < length ?cs.
           slice text (fst (specWindow ?L chunkSize overlap i))
                      (snd (specWindow ?L chunkSize overlap i)) = Inr (?cs ! i)"
    using slice_specWindow[OF assms] by simp
  have b: "\<forall>p. 0 \<le> p \<and> p < ?L \<longrightarrow>
           (\<exists>i < length ?cs. fst (specWindow ?L chunkSize overlap i) \<le> p \<and>
              p < snd (specWindow ?L chunkSize overlap i))"
    using covered[OF assms] by simp
  have c: "\<forall>i. Suc i < length ?cs \<longrightarrow>
           snd (specWindow ?L chunkSize overlap i) - fst (specWindow ?L chunkSize overlap (Suc i))
           = min overlap (?L - fst (specWindow ?L chunkSize overlap (Suc i)))"
    using overlap_eq[OF assms] by simp
  have d: "\<forall>i. Suc i < length ?cs \<and> int (length (?cs ! i)) = chunkSize \<longrightarrow>
           snd (specWindow ?L chunkSize overlap i) - fst (specWindow ?L chunkSize overlap (Suc i)) = overlap"
  proof (intro allI impI)
    fix i assume h: "Suc i < length ?cs \<and> int (length (?cs ! i)) = chunkSize"
    then have i: "i < ?n" by simp
    have "int (length (window text chunkSize (int i * (chunkSize - overlap)))) = chunkSize"
      using h i by simp
    then have "int i * (chunkSize - overlap) + chunkSize \<le> ?L"
      using assms by (simp add: window_def min_def split: if_splits)
    then show "snd (specWindow ?L chunkSize overlap i) - fst (specWindow ?L chunkSize overlap (Suc i)) = overlap"
      by (simp add: specWindow_def algebra_simps)
  qed
  show "\<exists>chunks. chunkText text chunkSize overlap = Some (Inr chunks) \<and>
        (\<forall>i < length chunks.
           slice text (fst (specWindow ?L chunkSize overlap i))
                      (snd (specWindow ?L chunkSize overlap i)) = Inr (chunks ! i)) \<and>
        (\<forall>p. 0 \<le> p \<and> p < ?L \<longrightarrow>
           (\<exists>i < length chunks.
              fst (specWindow ?L chunkSize overlap i) \<le> p \<and>
              p < snd (specWindow ?L chunkSize overlap i))) \<and>
        (\<forall>i. Suc i < length chunks \<longrightarrow>
           snd (specWindow ?L chunkSize overlap i)
             - fst (specWindow ?L chunkSize overlap (Suc i))
           = min overlap (?L - fst (specWindow ?L chunkSize overlap (Suc i)))) \<and>
        (\<forall>i. Suc i < length chunks \<and> int (length (chunks ! i)) = chunkSize \<longrightarrow>
           snd (specWindow ?L chunkSize overlap i)
             - fst (specWindow ?L chunkSize overlap (Suc i)) = overlap)"
    using eq a b c d by blast
qed

theorem C2_chunk_windows_witness:
  "(0::int) \<le> 2 \<and> (2::int) < 4 \<and> 4 < int (length ''abcdefgh'') \<and> int (length ''abc'') \<le> 4 \<and>
   chunkText ''abcdefgh'' 4 2 = Some (Inr [''abcd'', ''cdef'', ''efgh'', ''gh'']) \<and>
   chunkText ''abc'' 4 2 = Some (Inr [''abc''])"
  using C2_chunk_windows [of 2 4 "''abcdefgh''"] C2_chunk_windows [of 2 4 "''abc''"]
  by (simp add: chunkText_def chunkLoop.simps slice_def)

text \<open>
  Claim C2 as stated fails: on \<open>''abcde''\<close> with \<open>chunkSize = 4\<close> and \<open>overlap = 2\<close> the last
  two chunks, cut at \<open>[2,5)\<close> and \<open>[4,5)\<close>, share one position, not two.
\<close>
theorem C2_counterexample:
  "(0::int) \<le> 2 \<and> (2::int) < 4 \<and> 4 < int (length ''abcde'') \<and>
   chunkText ''abcde'' 4 2 = Some (Inr [''abcd'', ''cde'', ''e'']) \<and>
   slice ''abcde'' (fst (specWindow 5 4 2 1)) (snd (specWindow 5 4 2 1)) = Inr ''cde'' \<and>
   slice ''abcde'' (fst (specWindow 5 4 2 2)) (snd (specWindow 5 4 2 2)) = Inr ''e'' \<and>
   snd (specWindow 5 4 2 1) - fst (specWindow 5 4 2 2) \<noteq> 2"
  by (simp add: chunkText_def chunkLoop.simps slice_def specWindow_def)

text \<open>
  Claim C10. Under \<open>0 \<le> overlap < chunkSize\<close> the call \<open>chunkText text chunkSize overlap\<close>
  returns, without a panic, on every text; so does the loop from every start that is not
  negative.
\<close>
theorem C10_chunkText_terminates:
  assumes "0 \<le> overlap" "overlap < chunkSize"
  shows "(\<exists>chunks. chunkText text chunkSize overlap = Some (Inr chunks)) \<and>
         (\<forall>start acc. 0 \<le> start \<longrightarrow>
            (\<exists>chunks. chunkLoop text chunkSize overlap start acc = Some (Inr chunks)))"
proof -
  have "0 < chunkSize - overlap" "0 \<le> chunkSize" using assms by simp_all
  then show ?thesis
    using chunkLoop_closed[of chunkSize overlap _ "text"] by (simp add: chunkText_def)
qed

theorem C10_chunkText_terminates_witness:
  "(0::int) \<le> 1 \<and> (1::int) < 3 \<and> (\<exists>chunks. chunkText ''hello world'' 3 1 = Some (Inr chunks))"
  using C10_chunkText_terminates [of 1 3 "''hello world''"] by simp

lemma chunkLoop_zero_stride:
  "chunkLoop text chunkSize overlap start chunks = Some y \<Longrightarrow>
   \<not> (chunkSize = overlap \<and> 0 \<le> chunkSize \<and> 0 \<le> start \<and> start < int (length text))"
  by (rule chunkLoop.raw_induct[where P="\<lambda>text chunkSize overlap start chunks y.
        \<not> (chunkSize = overlap \<and> 0 \<le> chunkSize \<and> 0 \<le> start \<and> start < int (length text))"])
     (fastforce simp: Let_def slice_def split: if_splits sum.splits)+

lemma chunkText_diverges: "chunkText ''abc'' 2 2 = None"
proof (cases "chunkText ''abc'' 2 2")
  case (Some y)
  then show ?thesis using chunkLoop_zero_stride[of "''abc''" 2 2 0 "[]" y] by (simp add: chunkText_def)
qed simp

section \<open>Results on the hasher\<close>

lemma hexDigit_cases:
  assumes "d < 16"
  shows "hexDigit d \<in> set ''0123456789abcdef'' \<and> hexVal (hexDigit d) = d"
proof -
  have "d = 0 \<or> d = 1 \<or> d = 2 \<or> d = 3 \<or> d = 4 \<or> d = 5 \<or> d = 6 \<or> d = 7 \<or> d = 8
        \<or> d = 9 \<or> d = 10 \<or> d = 11 \<or> d = 12 \<or> d = 13 \<or> d = 14 \<or> d = 15"
    using assms by arith
  then show ?thesis by (auto simp: hexDigit_def hexVal_def)
qed

lemma hexByte_chars: "set (hexByte c) \<subseteq> set ''0123456789abcdef''"
proof -
  have a: "(of_char c :: nat) div 16 < 16"
  proof -
    have "(of_char c :: nat) mod 256 < 256" by simp
    then have "(of_char c :: nat) < 256" by (simp only: of_char_mod_256)
    then show ?thesis by arith
  qed
  have b: "(of_char c :: nat) mod 16 < 16" by simp
  show ?thesis using hexDigit_cases[OF a] hexDigit_cases[OF b] by (simp add: hexByte_def)
qed

lemma hexByte_val: "map hexVal (hexByte c) = [of_char c div 16, of_char c mod 16]"
proof -
  have a: "(of_char c :: nat) div 16 < 16"
  proof -
    have "(of_char c :: nat) mod 256 < 256" by simp
    then have "(of_char c :: nat) < 256" by (simp only: of_char_mod_256)
    then show ?thesis by arith
  qed
  have b: "(of_char c :: nat) mod 16 < 16" by simp
  show ?thesis using hexDigit_cases[OF a] hexDigit_cases[OF b] by (simp add: hexByte_def)
qed

lemma hexLower_length: "length (hexLower bs) = 2 * length bs"
  by (induction bs) (simp_all add: hexLower_def hexByte_def)

lemma hexLower_chars: "set (hexLower bs) \<subseteq> set ''0123456789abcdef''"
proof (induction bs)
  case Nil
  then show ?case by (simp add: hexLower_def)
next
  case (Cons c bs)
  have "set (hexLower (c # bs)) = set (hexByte c) \<union> set (hexLower bs)"
    by (simp add: hexLower_def)
  then show ?case using hexByte_chars[of c] Cons by blast
qed

lemma hexLower_val: "map hexVal (hexLower bs) = concat (map (\<lambda>c. [of_char c div 16, of_char c mod 16]) bs)"
  by (induction bs) (simp_all add: hexLower_def hexByte_val del: )

text \<open>
  Claim C8. When the file is read in full, \<open>calculateFileHash\<close> returns \<open>sha256:\<close> followed by
  the digest written in lower-case hexadecimal, two digits per byte; the result depends
  on the bytes read only, so two files with the same bytes get the same hash whatever
  their paths. The digest function itself is a parameter of the model.
\<close>
theorem C8_calculateFileHash:
  assumes "readFile env w filePath = Content bytes"
  shows "fst (calculateFileHash env filePath w) = Inr (''sha256:'' @ hexLower (sha256 env bytes))
       \<and> length (hexLower (sha256 env bytes)) = 2 * length (sha256 env bytes)
       \<and> set (hexLower (sha256 env bytes)) \<subseteq> set ''0123456789abcdef''
       \<and> map hexVal (hexLower (sha256 env bytes))
           = concat (map (\<lambda>c. [of_char c div 16, of_char c mod 16]) (sha256 env bytes))
       \<and> (\<forall>w' filePath'. readFile env w' filePath' = Content bytes \<longrightarrow>
             fst (calculateFileHash env filePath' w') = fst (calculateFileHash env filePath w))"
  using assms hexLower_length[of "sha256 env bytes"] hexLower_chars[of "sha256 env bytes"]
        hexLower_val[of "sha256 env bytes"]
  by (simp add: calculateFileHash_def)

theorem C8_calculateFileHash_witness:
  "readFile demoEnv [] ''d/a.txt'' = Content ''A'' \<and>
   fst (calculateFileHash demoEnv ''d/a.txt'' []) = Inr ''sha256:41'' \<and>
   fst (calculateFileHash demoEnv ''d/copy.txt'' []) = Inl ''open: no such file or directory''"
  using C8_calculateFileHash [of demoEnv "[]" "''d/a.txt''" "''A''"]
  by (simp add: demoEnv_def demoRead_def calculateFileHash_def hexLower_def hexByte_def hexDigit_def)

section \<open>Results on the check for an indexed document\<close>





lemma demo_indexFile_e: "indexFile demoEnv ''d/sub/e.txt'' ''sha256:45''
     [EvFileRead ''d/sub/e.txt'' (Content ''E''),
      EvLog DebugLevel ''Checking document existence'' [FString ''hash'' ''sha256:45''],
      EvQuery [0, 0] 1 ''sha256:45'' (Inl ''query timed out''),
      EvLog WarnLevel ''Failed to check document existence'' [FError ''query timed out'']]
   = Some (Inr (None,
     [EvFileRead ''d/sub/e.txt'' (Content ''E''),
      EvLog DebugLevel ''Checking document existence'' [FString ''hash'' ''sha256:45''],
      EvQuery [0, 0] 1 ''sha256:45'' (Inl ''query timed out''),
      EvLog WarnLevel ''Failed to check document existence'' [FError ''query timed out''],
      EvExtract ''d/sub/e.txt'' (Inr ''eeee''),
      EvGenerateSummary ''eeee'' (Inr ''summary''), EvNewUUID ''doc'',
      EvGenerateEmbedding ''eeee'' (Inr [1, 2]), EvTimeNow 1700000000,
      EvLog DebugLevel ''Upserting vectors'' [FInt ''count'' 1],
      EvHttpDo
          \<lparr>reqMethod = ''POST'', reqURL = ''https://index/vectors/upsert'',
             reqHeaders = [(''Content-Type'', ''application/json''), (''Api-Key'', ''key'')],
             reqBody = ''doc-chunk-0''\<rparr>
          (Inr \<lparr>StatusCode = 200, respBody = Inr ''{}''\<rparr>),
      EvLog DebugLevel ''Upserted batch'' [FInt ''from'' 0, FInt ''to'' 1],
      EvLog InfoLevel ''Successfully upserted vectors'' [FInt ''total'' 1],
      EvLog InfoLevel ''Successfully indexed file''
          [FString ''file'' ''d/sub/e.txt'', FInt ''chunks'' 1]]))"
  by code_simp


section \<open>Results on the vector store writer\<close>











lemma timeCalls_append: "timeCalls (a @ b) = timeCalls a @ timeCalls b"
  by (induction a rule: timeCalls.induct) simp_all

















section \<open>Results on embedding failures\<close>













section \<open>Results on the coordinator\<close>













section \<open>Results on the scanner\<close>






lemma broken_scan:
  "scanDirectory brokenEnv ''d'' [] =
     (([''d/a.txt''], Some ''lstat d/locked: permission denied''), [EvWalk ''d'' (Inr brokenTree)])"
  by code_simp



end
